theory Spec2Isabelle
  imports Complex_Main "HOL-Library.Sublist"
begin

section \<open>Entity model\<close>

text \<open>
  Modelled from the spec: the types \<open>User\<close>, \<open>Session\<close> and \<open>Feedback\<close> are imported
  by the components from \<open>@shared/schema\<close>, which is not among the source files. Their
  fields are the ones that the functions modelled here read; the value sets of \<open>role\<close> and \<open>status\<close> are the
  ones of the data model (role in {mentor, mentee}, status in {pending, approved,
  completed, canceled, rejected}). Ids and ratings are JavaScript numbers holding integers.
\<close>

datatype role = Mentor | Mentee

datatype session_status = Pending | Approved | Completed | Canceled | Rejected

record user =
  u_id :: int
  role :: role
  firstName :: string
  lastName :: string

record session =
  s_id :: int
  mentorId :: int
  menteeId :: int
  topic :: string
  status :: session_status
  meetingLink :: "string option"
  sessionNotes :: "string option"

record feedback =
  sessionId :: int
  fromId :: int
  toId :: int
  rating :: int
  comment :: string

record skill_values =
  name :: string
  progress :: int

text \<open>The string a status is written as in the source (\<open>session.status === "approved"\<close>).\<close>

fun status_name :: "session_status \<Rightarrow> string" where
  "status_name Pending = ''pending''"
| "status_name Approved = ''approved''"
| "status_name Completed = ''completed''"
| "status_name Canceled = ''canceled''"
| "status_name Rejected = ''rejected''"

section \<open>Effects: network requests, cache invalidations, notifications\<close>

text \<open>
  The components act on the outside through three channels: \<open>apiRequest\<close> (a network call),
  \<open>queryClient.invalidateQueries\<close> (a cache key marked stale) and \<open>toast\<close> (a notification).
  Each channel is a log in the state, in call order; the local \<open>useState\<close> cells that the
  mutation callbacks write are fields of the same state.
\<close>

datatype api_request =
    PutSession int session_status
  | PostFeedback feedback
  | PostSkill skill_values
  | PutSkill int "int option"

text \<open>What the server answers to a mutation: success, or a failure carrying \<open>error.message\<close>.\<close>

datatype response = Ok | Failed string

record toast =
  title :: string
  description :: string
  destructive :: bool

record world =
  requests :: "api_request list"
  invalidated :: "string list"
  toasts :: "toast list"
  showFeedbackModal :: bool
  isAddingSkill :: bool
  form :: skill_values

definition apiRequest :: "api_request \<Rightarrow> world \<Rightarrow> world" where
  "apiRequest r w = w\<lparr>requests := requests w @ [r]\<rparr>"

definition invalidateQueries :: "string \<Rightarrow> world \<Rightarrow> world" where
  "invalidateQueries k w = w\<lparr>invalidated := invalidated w @ [k]\<rparr>"

definition toast :: "string \<Rightarrow> string \<Rightarrow> bool \<Rightarrow> world \<Rightarrow> world" where
  "toast t d v w = w\<lparr>toasts := toasts w @ [\<lparr>title = t, description = d, destructive = v\<rparr>]\<rparr>"

section \<open>SessionCard\<close>

text \<open>
  The viewer is \<open>useAuth().user\<close>, which may be absent: \<open>user?.id\<close> and \<open>user?.role\<close> are
  then \<open>undefined\<close> and equal to no id and no role.
\<close>

definition isOwnSession :: "user option \<Rightarrow> session \<Rightarrow> bool" where
  "isOwnSession u s =
     (if map_option role u = Some Mentor
      then Some (mentorId s) = map_option u_id u
      else Some (menteeId s) = map_option u_id u)"

definition isMentor :: "user option \<Rightarrow> bool" where
  "isMentor u = (map_option role u = Some Mentor)"

definition participantId :: "user option \<Rightarrow> session \<Rightarrow> int" where
  "participantId u s = (if isMentor u then menteeId s else mentorId s)"

text \<open>The \<open>enabled\<close> flags of the profile query and of the feedback-given query.\<close>

definition participantQueryEnabled :: "user option \<Rightarrow> session \<Rightarrow> bool" where
  "participantQueryEnabled u s = (participantId u s \<noteq> 0 \<and> isOwnSession u s)"

definition userFeedbackQueryEnabled :: "user option \<Rightarrow> session \<Rightarrow> bool" where
  "userFeedbackQueryEnabled u s = (status s = Completed \<and> isOwnSession u s)"

text \<open>\<open>userFeedback?.some(...) || false\<close>: no data yet counts as no feedback left.\<close>

definition hasLeftFeedback :: "feedback list option \<Rightarrow> user option \<Rightarrow> session \<Rightarrow> bool" where
  "hasLeftFeedback userFeedback u s =
     (case userFeedback of
        None \<Rightarrow> False
      | Some fs \<Rightarrow>
          list_ex (\<lambda>f. sessionId f = s_id s \<and> Some (fromId f) = map_option u_id u) fs)"

subsection \<open>The two mutations of the card\<close>

definition updateSession_mutationFn :: "int \<Rightarrow> session_status \<Rightarrow> world \<Rightarrow> world" where
  "updateSession_mutationFn i st w = apiRequest (PutSession i st) w"

definition updateSession_onSuccess :: "user option \<Rightarrow> session_status \<Rightarrow> world \<Rightarrow> world" where
  "updateSession_onSuccess u st w =
     (let w1 = invalidateQueries ''/api/sessions'' w;
          w2 = invalidateQueries ''/api/sessions/upcoming'' w1;
          w3 = invalidateQueries ''/api/activities'' w2
      in if st = Completed then
           toast ''Session marked as completed''
             (if isMentor u then ''Mentee will now be able to leave feedback.''
              else ''The mentor has ended this session. Please leave your feedback.'')
             False w3
         else if st = Canceled then
           toast ''Session canceled'' ''The session has been canceled successfully.'' False w3
         else
           toast (''Session '' @ status_name st)
             (''The session has been '' @ status_name st @ '' successfully.'') False w3)"

definition updateSession_onError :: "string \<Rightarrow> world \<Rightarrow> world" where
  "updateSession_onError msg w = toast ''Failed to update session'' msg True w"

text \<open>
  \<open>updateSessionMutation.mutate\<close>: the request is sent, and when the server has answered
  exactly one of the two callbacks runs.
\<close>

definition updateSessionMutation ::
  "user option \<Rightarrow> int \<Rightarrow> session_status \<Rightarrow> response \<Rightarrow> world \<Rightarrow> world" where
  "updateSessionMutation u i st resp w =
     (let w1 = updateSession_mutationFn i st w
      in case resp of
           Ok \<Rightarrow> updateSession_onSuccess u st w1
         | Failed msg \<Rightarrow> updateSession_onError msg w1)"

definition submitFeedback_mutationFn :: "feedback \<Rightarrow> world \<Rightarrow> world" where
  "submitFeedback_mutationFn feedbackData w = apiRequest (PostFeedback feedbackData) w"

definition submitFeedback_onSuccess :: "world \<Rightarrow> world" where
  "submitFeedback_onSuccess w =
     (let w1 = w\<lparr>showFeedbackModal := False\<rparr>;
          w2 = toast ''Feedback submitted'' ''Thank you for your feedback!'' False w1;
          w3 = invalidateQueries ''/api/feedback'' w2;
          w4 = invalidateQueries ''/api/feedback/given'' w3
      in invalidateQueries ''/api/activities'' w4)"

definition submitFeedback_onError :: "string \<Rightarrow> world \<Rightarrow> world" where
  "submitFeedback_onError msg w = toast ''Failed to submit feedback'' msg True w"

definition submitFeedbackMutation :: "feedback \<Rightarrow> response \<Rightarrow> world \<Rightarrow> world" where
  "submitFeedbackMutation feedbackData resp w =
     (let w1 = submitFeedback_mutationFn feedbackData w
      in case resp of
           Ok \<Rightarrow> submitFeedback_onSuccess w1
         | Failed msg \<Rightarrow> submitFeedback_onError msg w1)"

subsection \<open>Handlers\<close>

definition handleCancel :: "user option \<Rightarrow> session \<Rightarrow> response \<Rightarrow> world \<Rightarrow> world" where
  "handleCancel u s resp w =
     (if Some (mentorId s) \<noteq> map_option u_id u \<and> Some (menteeId s) \<noteq> map_option u_id u
      then toast ''Permission Denied''
             ''You can only cancel sessions that you are a part of.'' True w
      else updateSessionMutation u (s_id s) Canceled resp w)"

definition handleLeaveFeedback :: "world \<Rightarrow> world" where
  "handleLeaveFeedback w = w\<lparr>showFeedbackModal := True\<rparr>"

text \<open>
  The object literal \<open>feedbackData\<close> of \<open>submitFeedback\<close>; \<open>r\<close> and \<open>c\<close> are the values of the
  state cells \<open>rating\<close> and \<open>comment\<close> at the time of the call.
\<close>

definition feedbackData :: "user \<Rightarrow> session \<Rightarrow> int \<Rightarrow> string \<Rightarrow> feedback" where
  "feedbackData v s r c =
     \<lparr>sessionId = s_id s,
      fromId = u_id v,
      toId = (if isMentor (Some v) then menteeId s else mentorId s),
      rating = r,
      comment = c\<rparr>"

text \<open>\<open>user!.id\<close> on an absent user throws a TypeError before anything is sent.\<close>

datatype error = TypeError

definition submitFeedback ::
  "user option \<Rightarrow> session \<Rightarrow> int \<Rightarrow> string \<Rightarrow> response \<Rightarrow> world \<Rightarrow> error + world" where
  "submitFeedback u s r c resp w =
     (case u of
        None \<Rightarrow> Inl TypeError
      | Some v \<Rightarrow> Inr (submitFeedbackMutation (feedbackData v s r c) resp w))"

subsection \<open>What the card renders\<close>





text \<open>
  The action column of the card, in render order. The block for approved sessions holds a
  Join and a Cancel button; a second Cancel button follows under its own condition. Both
  Cancel buttons have \<open>onClick={handleCancel}\<close>.
\<close>

datatype button = JoinSession | Cancel

definition actionButtons :: "user option \<Rightarrow> session \<Rightarrow> button list" where
  "actionButtons u s =
     (if status s = Approved then [JoinSession, Cancel] else []) @
     (if (Some (mentorId s) = map_option u_id u \<or> Some (menteeId s) = map_option u_id u) \<and>
         status s \<noteq> Completed \<and> status s \<noteq> Canceled \<and> status s \<noteq> Rejected
      then [Cancel] else [])"

definition cancelOffered :: "user option \<Rightarrow> session \<Rightarrow> bool" where
  "cancelOffered u s = (Cancel \<in> set (actionButtons u s))"

text \<open>
  A click on Cancel: \<open>handleCancel\<close> runs when a Cancel button is on the card, and nothing
  happens when there is none to click.
\<close>

definition clickCancel :: "user option \<Rightarrow> session \<Rightarrow> response \<Rightarrow> world \<Rightarrow> world" where
  "clickCancel u s resp w = (if cancelOffered u s then handleCancel u s resp w else w)"

text \<open>
  The event handlers that the rendered card binds to a control, in render order: those of
  the buttons of the action column and, inside the feedback dialog, which is rendered only
  while \<open>showFeedbackModal\<close> holds (\<open>open={showFeedbackModal}\<close>), the handler of its Cancel
  button (\<open>() => setShowFeedbackModal(false)\<close>) and of its Submit button (\<open>submitFeedback\<close>).
  The component declares \<open>handleLeaveFeedback\<close> too; no element of its markup refers to it.
\<close>

datatype handler =
    HandleJoinSession
  | HandleCancel
  | HandleLeaveFeedback
  | CloseFeedbackModal
  | SubmitFeedback

fun buttonHandler :: "button \<Rightarrow> handler" where
  "buttonHandler JoinSession = HandleJoinSession"
| "buttonHandler Cancel = HandleCancel"

definition renderedHandlers :: "user option \<Rightarrow> session \<Rightarrow> world \<Rightarrow> handler list" where
  "renderedHandlers u s w =
     map buttonHandler (actionButtons u s) @
     (if showFeedbackModal w then [CloseFeedbackModal, SubmitFeedback] else [])"

section \<open>SkillsProgress\<close>

definition defaultValues :: skill_values where
  "defaultValues = \<lparr>name = [], progress = 0\<rparr>"

definition addSkill_mutationFn :: "skill_values \<Rightarrow> world \<Rightarrow> world" where
  "addSkill_mutationFn values w = apiRequest (PostSkill values) w"

definition addSkill_onSuccess :: "world \<Rightarrow> world" where
  "addSkill_onSuccess w =
     (let w1 = invalidateQueries ''/api/skills'' w;
          w2 = w1\<lparr>isAddingSkill := False\<rparr>;
          w3 = w2\<lparr>form := defaultValues\<rparr>
      in toast ''Skill added'' ''Your new skill has been added successfully.'' False w3)"

definition addSkill_onError :: "string \<Rightarrow> world \<Rightarrow> world" where
  "addSkill_onError msg w = toast ''Failed to add skill'' msg True w"

definition addSkillMutation :: "skill_values \<Rightarrow> response \<Rightarrow> world \<Rightarrow> world" where
  "addSkillMutation values resp w =
     (let w1 = addSkill_mutationFn values w
      in case resp of
           Ok \<Rightarrow> addSkill_onSuccess w1
         | Failed msg \<Rightarrow> addSkill_onError msg w1)"

definition updateSkill_mutationFn :: "int \<Rightarrow> int option \<Rightarrow> world \<Rightarrow> world" where
  "updateSkill_mutationFn i p w = apiRequest (PutSkill i p) w"

definition updateSkill_onSuccess :: "world \<Rightarrow> world" where
  "updateSkill_onSuccess w =
     (let w1 = invalidateQueries ''/api/skills'' w
      in toast ''Skill updated'' ''Your skill progress has been updated.'' False w1)"

definition updateSkill_onError :: "string \<Rightarrow> world \<Rightarrow> world" where
  "updateSkill_onError msg w = toast ''Failed to update skill'' msg True w"

definition updateSkillMutation :: "int \<Rightarrow> int option \<Rightarrow> response \<Rightarrow> world \<Rightarrow> world" where
  "updateSkillMutation i p resp w =
     (let w1 = updateSkill_mutationFn i p w
      in case resp of
           Ok \<Rightarrow> updateSkill_onSuccess w1
         | Failed msg \<Rightarrow> updateSkill_onError msg w1)"

definition onSubmit :: "skill_values \<Rightarrow> response \<Rightarrow> world \<Rightarrow> world" where
  "onSubmit values resp w = addSkillMutation values resp w"

text \<open>\<open>progress[0]\<close> of an empty array is \<open>undefined\<close>.\<close>

definition handleProgressChange :: "int \<Rightarrow> int list \<Rightarrow> response \<Rightarrow> world \<Rightarrow> world" where
  "handleProgressChange i progress_arr resp w =
     updateSkillMutation i (case progress_arr of [] \<Rightarrow> None | p # _ \<Rightarrow> Some p) resp w"

section \<open>StatsOverview\<close>

text \<open>
  What \<open>useQuery\<close> hands to the component: the data, absent until fetched, and the
  \<open>isLoading\<close> flag.
\<close>

record 'a query =
  data :: "'a option"
  isLoading :: bool

definition upcomingSessionsCount :: "session list option \<Rightarrow> nat" where
  "upcomingSessionsCount upcomingSessions =
     (case upcomingSessions of None \<Rightarrow> 0 | Some xs \<Rightarrow> length xs)"

definition totalHours :: "session list option \<Rightarrow> nat" where
  "totalHours sessions = (case sessions of None \<Rightarrow> 0 | Some xs \<Rightarrow> length xs) * 1"

definition activeMentorsCount :: "user option \<Rightarrow> user list option \<Rightarrow> nat" where
  "activeMentorsCount u mentors =
     (if map_option role u = Some Mentee
      then (case mentors of None \<Rightarrow> 0 | Some ms \<Rightarrow> length ms)
      else 0)"

text \<open>
  \<open>Math.round\<close> rounds to the nearest integer, a half upwards. JavaScript numbers are taken
  as exact rationals here: the sum of integer ratings is exact, and the quotient is
  rounded to one decimal.
\<close>

definition Math_round :: "rat \<Rightarrow> int" where
  "Math_round x = \<lfloor>x + 1 / 2\<rfloor>"

definition totalRating :: "feedback list \<Rightarrow> int" where
  "totalRating fb = foldl (\<lambda>sum item. sum + rating item) 0 fb"

definition avgRating :: "feedback list option \<Rightarrow> rat" where
  "avgRating fb =
     (case fb of
        None \<Rightarrow> 0
      | Some fs \<Rightarrow>
          if length fs > 0
          then of_int (Math_round ((of_int (totalRating fs) / of_nat (length fs)) * 10)) / 10
          else 0)"

text \<open>
  The value of the Feedback Score card, \<open>avgRating ? `${avgRating}/5` : "No ratings"\<close>:
  \<open>Score q\<close> stands for the text of \<open>q\<close> followed by \<open>/5\<close>.
\<close>

datatype score = Score rat | NoRatings

definition feedbackScore :: "feedback list option \<Rightarrow> score" where
  "feedbackScore fb = (if avgRating fb \<noteq> 0 then Score (avgRating fb) else NoRatings)"

record stats =
  upcomingCard :: nat
  totalHoursCard :: nat
  hoursThisMonth :: nat
  thirdCardTitle :: string
  thirdCard :: nat
  feedbackCard :: score
  basedOn :: nat

datatype stats_view = Skeleton | StatCards stats

definition statCards ::
  "user option \<Rightarrow> session list option \<Rightarrow> session list option \<Rightarrow> feedback list option \<Rightarrow>
   user list option \<Rightarrow> stats" where
  "statCards u upcomingSessions sessions fb mentors =
     \<lparr>upcomingCard = upcomingSessionsCount upcomingSessions,
      totalHoursCard = totalHours sessions,
      hoursThisMonth = totalHours sessions div 2,
      thirdCardTitle =
        (if map_option role u = Some Mentee then ''Active Mentors'' else ''Active Mentees''),
      thirdCard =
        (if map_option role u = Some Mentee then activeMentorsCount u mentors
         else if upcomingSessionsCount upcomingSessions > 0
              then upcomingSessionsCount upcomingSessions else 0),
      feedbackCard = feedbackScore fb,
      basedOn = (case fb of None \<Rightarrow> 0 | Some fs \<Rightarrow> length fs)\<rparr>"

definition StatsOverview ::
  "user option \<Rightarrow> session list query \<Rightarrow> session list query \<Rightarrow> feedback list query \<Rightarrow>
   user list query \<Rightarrow> stats_view" where
  "StatsOverview u upcomingQ sessionsQ feedbackQ mentorsQ =
     (if isLoading upcomingQ \<or> isLoading sessionsQ \<or> isLoading feedbackQ \<or>
         (map_option role u = Some Mentee \<and> isLoading mentorsQ)
      then Skeleton
      else StatCards (statCards u (data upcomingQ) (data sessionsQ) (data feedbackQ)
                        (data mentorsQ)))"

section \<open>RecommendedMentors\<close>

text \<open>\<open>Array.prototype.slice(start, end)\<close> for indices that are not negative.\<close>

definition slice :: "nat \<Rightarrow> nat \<Rightarrow> 'a list \<Rightarrow> 'a list" where
  "slice start endIndex xs =
     (let k = min start (length xs); final = min endIndex (length xs)
      in take (final - k) (drop k xs))"

definition recommendedMentors :: "user list option \<Rightarrow> user list option" where
  "recommendedMentors mentors =
     map_option (\<lambda>ms. slice 0 4 (filter (\<lambda>mentor. role mentor = Mentor) ms)) mentors"

section \<open>The spec's wording of ownership, and example data\<close>

text \<open>
  Ownership as the spec words it (Access Policy): the viewer is the session's mentor and
  has the mentor role, or is the session's mentee and has the mentee role. It is compared
  below with \<open>isOwnSession\<close>, which is the source's.
\<close>

definition isOwner_spec :: "user \<Rightarrow> session \<Rightarrow> bool" where
  "isOwner_spec v s =
     ((role v = Mentor \<and> u_id v = mentorId s) \<or> (role v = Mentee \<and> u_id v = menteeId s))"

text \<open>
  The session of the spec's scenarios (id 7, mentor 1, mentee 2) in a given status, its two
  participants, a third user who takes no part in it, and a state in which nothing has
  happened yet.
\<close>

definition mentor1 :: user where
  "mentor1 = \<lparr>u_id = 1, role = Mentor, firstName = ''Ada'', lastName = ''Byron''\<rparr>"

definition mentee2 :: user where
  "mentee2 = \<lparr>u_id = 2, role = Mentee, firstName = ''Bob'', lastName = ''Stone''\<rparr>"

definition outsider3 :: user where
  "outsider3 = \<lparr>u_id = 3, role = Mentee, firstName = ''Cy'', lastName = ''Young''\<rparr>"

definition session7 :: "session_status \<Rightarrow> session" where
  "session7 st = \<lparr>s_id = 7, mentorId = 1, menteeId = 2, topic = ''Career'', status = st,
     meetingLink = None, sessionNotes = None\<rparr>"

definition world0 :: world where
  "world0 = \<lparr>requests = [], invalidated = [], toasts = [], showFeedbackModal = False,
     isAddingSkill = False, form = defaultValues\<rparr>"

text \<open>The feedback of the spec's scenario: given by the mentee on session 7, rating 5.\<close>

definition feedback7 :: feedback where
  "feedback7 = \<lparr>sessionId = 7, fromId = 2, toId = 1, rating = 5, comment = []\<rparr>"

text \<open>A query that has been fetched: its data is there and it is not loading.\<close>

definition loaded :: "'a \<Rightarrow> 'a query" where
  "loaded xs = \<lparr>data = Some xs, isLoading = False\<rparr>"

text \<open>A feedback entry of which only the rating matters (the stats read nothing else).\<close>

definition rated :: "int \<Rightarrow> feedback" where
  "rated r = \<lparr>sessionId = 7, fromId = 2, toId = 1, rating = r, comment = []\<rparr>"

text \<open>
  A query that has stopped loading and has no data, as \<open>useQuery\<close> reports it after a fetch
  that failed.
\<close>

definition settled :: "'a query" where
  "settled = \<lparr>data = None, isLoading = False\<rparr>"

definition loading :: "'a query" where
  "loading = \<lparr>data = None, isLoading = True\<rparr>"

text \<open>
  The mean of the ratings as the spec words it (Stats Aggregator), an exact rational; it is
  compared below with what the component computes.
\<close>

definition mean_rating :: "feedback list \<Rightarrow> rat" where
  "mean_rating fb = of_int (sum_list (map rating fb)) / of_nat (length fb)"

text \<open>Mentors of a directory, told apart by their ids.\<close>

definition mentor_of :: "int \<Rightarrow> user" where
  "mentor_of n = \<lparr>u_id = n, role = Mentor, firstName = ''Dan'', lastName = ''Moss''\<rparr>"

section \<open>Access policy\<close>


lemma isOwnSession_None: "\<not> isOwnSession None s"
  by (simp add: isOwnSession_def)





section \<open>Cancelling a session\<close>

text \<open>
  Claim C2. For every session and viewer whose id is neither the session's \<open>mentorId\<close> nor
  its \<open>menteeId\<close> (an absent viewer included), the cancel action ends in the permission
  notification and changes nothing else: no network call is dispatched, hence no status
  update is issued, and no cache key is invalidated, whatever the server would answer.
\<close>

theorem cancel_by_non_participant_denied:
  "Some (mentorId s) \<noteq> map_option u_id u \<and> Some (menteeId s) \<noteq> map_option u_id u \<Longrightarrow>
     requests (handleCancel u s resp w) = requests w \<and>
     invalidated (handleCancel u s resp w) = invalidated w \<and>
     toasts (handleCancel u s resp w) =
       toasts w @ [\<lparr>title = ''Permission Denied'',
                    description = ''You can only cancel sessions that you are a part of.'',
                    destructive = True\<rparr>]"
  by (simp add: handleCancel_def toast_def)

theorem cancel_by_non_participant_denied_witness:
  "Some (mentorId (session7 Approved)) \<noteq> map_option u_id (Some outsider3) \<and>
   Some (menteeId (session7 Approved)) \<noteq> map_option u_id (Some outsider3) \<and>
   requests (handleCancel (Some outsider3) (session7 Approved) Ok world0) = [] \<and>
   invalidated (handleCancel (Some outsider3) (session7 Approved) Ok world0) = [] \<and>
   map title (toasts (handleCancel (Some outsider3) (session7 Approved) Ok world0)) =
     [''Permission Denied'']"
proof -
  have h: "Some (mentorId (session7 Approved)) \<noteq> map_option u_id (Some outsider3) \<and>
           Some (menteeId (session7 Approved)) \<noteq> map_option u_id (Some outsider3)"
    by (simp add: outsider3_def session7_def)
  show ?thesis
    using h cancel_by_non_participant_denied [OF h, of Ok world0] by (simp add: world0_def)
qed

lemma requests_toast [simp]: "requests (toast t d v w) = requests w"
  by (simp add: toast_def)

lemma requests_invalidateQueries [simp]: "requests (invalidateQueries k w) = requests w"
  by (simp add: invalidateQueries_def)

lemma requests_apiRequest [simp]: "requests (apiRequest r w) = requests w @ [r]"
  by (simp add: apiRequest_def)

lemma invalidated_toast [simp]: "invalidated (toast t d v w) = invalidated w"
  by (simp add: toast_def)

lemma invalidated_invalidateQueries [simp]:
  "invalidated (invalidateQueries k w) = invalidated w @ [k]"
  by (simp add: invalidateQueries_def)

lemma invalidated_apiRequest [simp]: "invalidated (apiRequest r w) = invalidated w"
  by (simp add: apiRequest_def)

lemma requests_updateSessionMutation:
  "requests (updateSessionMutation u i st resp w) = requests w @ [PutSession i st]"
  by (cases resp)
     (simp_all add: updateSessionMutation_def updateSession_mutationFn_def
        updateSession_onSuccess_def updateSession_onError_def Let_def)

text \<open>
  When a Cancel button is on the card: on every approved session (the first button, shown
  to any viewer), and on a pending session of which the viewer is the mentor or the mentee
  (the second button).
\<close>

lemma cancelOffered_iff:
  "cancelOffered u s \<longleftrightarrow>
     status s = Approved \<or>
     (status s = Pending \<and>
      (Some (mentorId s) = map_option u_id u \<or> Some (menteeId s) = map_option u_id u))"
  by (cases "status s") (auto simp: cancelOffered_def actionButtons_def)

text \<open>
  Claim C3, as stated, fails: the cancel action is not confined to approved sessions. On
  the pending session 7 its mentee is offered Cancel, and the click sends the status update
  to canceled.
\<close>

theorem cancel_offered_on_pending_counterexample:
  "cancelOffered (Some mentee2) (session7 Pending) \<and>
   status (session7 Pending) \<noteq> Approved \<and>
   requests (clickCancel (Some mentee2) (session7 Pending) Ok world0) = [PutSession 7 Canceled]"
  by (simp add: cancelOffered_iff clickCancel_def handleCancel_def
        requests_updateSessionMutation session7_def mentee2_def world0_def)

text \<open>
  Claim C3, amended. The cancel action is offered exactly when the session is approved, or
  is pending and the viewer is its mentor or mentee. It is never offered and a click never
  does anything for sessions whose status is completed, canceled or rejected. Whenever a
  click sends a request, the session is approved or pending, the viewer is its mentor or
  mentee, and the one request sent is the status update of this session to canceled.
\<close>

theorem cancel_offered_only_before_terminal:
  "(cancelOffered u s \<longleftrightarrow>
      status s = Approved \<or>
      (status s = Pending \<and>
       (Some (mentorId s) = map_option u_id u \<or> Some (menteeId s) = map_option u_id u))) \<and>
   (status s = Completed \<or> status s = Canceled \<or> status s = Rejected \<longrightarrow>
      \<not> cancelOffered u s \<and> clickCancel u s resp w = w) \<and>
   (requests (clickCancel u s resp w) \<noteq> requests w \<longrightarrow>
      (status s = Approved \<or> status s = Pending) \<and>
      (Some (mentorId s) = map_option u_id u \<or> Some (menteeId s) = map_option u_id u) \<and>
      requests (clickCancel u s resp w) = requests w @ [PutSession (s_id s) Canceled])"
proof -
  have terminal: "\<not> cancelOffered u s \<and> clickCancel u s resp w = w"
    if "status s = Completed \<or> status s = Canceled \<or> status s = Rejected"
    using that by (auto simp: cancelOffered_iff clickCancel_def)
  have dispatched:
    "(status s = Approved \<or> status s = Pending) \<and>
     (Some (mentorId s) = map_option u_id u \<or> Some (menteeId s) = map_option u_id u) \<and>
     requests (clickCancel u s resp w) = requests w @ [PutSession (s_id s) Canceled]"
    if change: "requests (clickCancel u s resp w) \<noteq> requests w"
  proof -
    from change have offered: "cancelOffered u s"
      by (auto simp: clickCancel_def split: if_splits)
    from change offered have part:
      "Some (mentorId s) = map_option u_id u \<or> Some (menteeId s) = map_option u_id u"
      by (auto simp: clickCancel_def handleCancel_def split: if_splits)
    from offered part have
      "requests (clickCancel u s resp w) = requests w @ [PutSession (s_id s) Canceled]"
      by (auto simp: clickCancel_def handleCancel_def requests_updateSessionMutation)
    with offered part show ?thesis
      by (auto simp: cancelOffered_iff)
  qed
  from terminal dispatched show ?thesis
    using cancelOffered_iff [of u s] by blast
qed

theorem cancel_offered_only_before_terminal_witness:
  "(status (session7 Completed) = Completed \<or> status (session7 Completed) = Canceled \<or>
    status (session7 Completed) = Rejected) \<and>
   \<not> cancelOffered (Some mentor1) (session7 Completed) \<and>
   clickCancel (Some mentor1) (session7 Completed) Ok world0 = world0 \<and>
   requests (clickCancel (Some mentor1) (session7 Approved) Ok world0) \<noteq> requests world0 \<and>
   requests (clickCancel (Some mentor1) (session7 Approved) Ok world0) =
     [PutSession 7 Canceled]"
proof -
  have h1: "status (session7 Completed) = Completed \<or> status (session7 Completed) = Canceled \<or>
            status (session7 Completed) = Rejected"
    by (simp add: session7_def)
  have h2: "requests (clickCancel (Some mentor1) (session7 Approved) Ok world0) \<noteq>
            requests world0"
    by (simp add: clickCancel_def cancelOffered_iff handleCancel_def
          requests_updateSessionMutation session7_def mentor1_def world0_def)
  show ?thesis
    using h1 h2
      cancel_offered_only_before_terminal [of "Some mentor1" "session7 Completed" Ok world0]
      cancel_offered_only_before_terminal [of "Some mentor1" "session7 Approved" Ok world0]
    by (simp add: session7_def world0_def)
qed

section \<open>Feedback\<close>

lemma hasLeftFeedback_Some:
  "hasLeftFeedback (Some F) (Some v) s \<longleftrightarrow>
     (\<exists>f \<in> set F. sessionId f = s_id s \<and> fromId f = u_id v)"
  by (auto simp: hasLeftFeedback_def list_ex_iff)

text \<open>
  Claim C4 (feedback eligibility as a filter over the feedback-given snapshot). The card
  computes the filter as the claim words it: \<open>hasLeftFeedback\<close> holds iff some element of
  the snapshot has the session's id as \<open>sessionId\<close> and the viewer's id as \<open>fromId\<close>. But
  the card reads that value nowhere and binds \<open>handleLeaveFeedback\<close> to no control, so the
  viewer whom the claim makes eligible is not let to leave feedback. At the spec's
  scenario, the mentee of the completed session 7 with no feedback given yet, the card in
  its initial state binds no handler at all: the dialog is closed and nothing opens it.
  With the mentee's feedback in the snapshot the filter answers true, and the card is the
  same, since what it renders does not depend on the snapshot.
\<close>

lemma handleLeaveFeedback_never_bound: "HandleLeaveFeedback \<notin> set (renderedHandlers u s w)"
proof -
  have "HandleLeaveFeedback \<noteq> buttonHandler b" for b
    by (cases b) simp_all
  then have "HandleLeaveFeedback \<notin> buttonHandler ` set (actionButtons u s)"
    by blast
  then show ?thesis
    by (simp add: renderedHandlers_def)
qed

theorem eligible_viewer_has_no_feedback_control:
  "isOwnSession (Some mentee2) (session7 Completed) \<and>
   status (session7 Completed) = Completed \<and>
   \<not> hasLeftFeedback (Some []) (Some mentee2) (session7 Completed) \<and>
   hasLeftFeedback (Some [feedback7]) (Some mentee2) (session7 Completed) \<and>
   \<not> showFeedbackModal world0 \<and>
   renderedHandlers (Some mentee2) (session7 Completed) world0 = []"
  by (simp add: isOwnSession_def hasLeftFeedback_def renderedHandlers_def actionButtons_def
        session7_def mentee2_def feedback7_def world0_def)

lemma requests_submitFeedbackMutation:
  "requests (submitFeedbackMutation fd resp w) = requests w @ [PostFeedback fd]"
  by (cases resp)
     (simp_all add: submitFeedbackMutation_def submitFeedback_mutationFn_def
        submitFeedback_onSuccess_def submitFeedback_onError_def Let_def)

lemma submitFeedback_Some:
  "submitFeedback (Some v) s r c resp w =
     Inr (submitFeedbackMutation (feedbackData v s r c) resp w)"
  by (simp add: submitFeedback_def)

text \<open>
  Claim C6. For every feedback record submitted by viewer \<open>v\<close> on session \<open>s\<close>, the record
  sent is \<open>feedbackData\<close>, whose \<open>toId\<close> is the session's \<open>menteeId\<close> when \<open>v\<close> has the mentor
  role and its \<open>mentorId\<close> otherwise: the id of the other participant, as \<open>participantId\<close>
  computes it. It is always one of the two ids of the session, it does not depend on the
  rating and the comment (the only values the viewer supplies), and for an owner of a
  session with two distinct participants it is not the viewer's own id, which is \<open>fromId\<close>.
\<close>

theorem feedback_toId_is_other_participant:
  "(\<exists>w'. submitFeedback (Some v) s r c resp w = Inr w' \<and>
          requests w' = requests w @ [PostFeedback (feedbackData v s r c)]) \<and>
   toId (feedbackData v s r c) = (if role v = Mentor then menteeId s else mentorId s) \<and>
   toId (feedbackData v s r c) = participantId (Some v) s \<and>
   toId (feedbackData v s r c) \<in> {mentorId s, menteeId s} \<and>
   toId (feedbackData v s r c) = toId (feedbackData v s r' c') \<and>
   (isOwner_spec v s \<and> mentorId s \<noteq> menteeId s \<longrightarrow>
      toId (feedbackData v s r c) \<noteq> u_id v \<and> fromId (feedbackData v s r c) = u_id v)"
  by (auto simp: submitFeedback_Some requests_submitFeedbackMutation feedbackData_def
        isMentor_def participantId_def isOwner_spec_def)

theorem feedback_toId_is_other_participant_witness:
  "isOwner_spec mentee2 (session7 Completed) \<and>
   mentorId (session7 Completed) \<noteq> menteeId (session7 Completed) \<and>
   toId (feedbackData mentee2 (session7 Completed) 5 []) = 1 \<and>
   toId (feedbackData mentee2 (session7 Completed) 5 []) \<noteq> u_id mentee2"
proof -
  have h: "isOwner_spec mentee2 (session7 Completed) \<and>
           mentorId (session7 Completed) \<noteq> menteeId (session7 Completed)"
    by (simp add: isOwner_spec_def session7_def mentee2_def)
  show ?thesis
    using h
      feedback_toId_is_other_participant [of mentee2 "session7 Completed" 5 "[]" Ok world0 5 "[]"]
    by (simp add: session7_def mentee2_def)
qed

section \<open>Cache invalidation\<close>

lemma invalidated_updateSession_onSuccess:
  "invalidated (updateSession_onSuccess u st w) =
     invalidated w @ [''/api/sessions'', ''/api/sessions/upcoming'', ''/api/activities'']"
  by (simp add: updateSession_onSuccess_def Let_def)

lemma invalidated_submitFeedback_onSuccess:
  "invalidated (submitFeedback_onSuccess w) =
     invalidated w @ [''/api/feedback'', ''/api/feedback/given'', ''/api/activities'']"
  by (simp add: submitFeedback_onSuccess_def Let_def toast_def invalidateQueries_def)

lemma invalidated_addSkill_onSuccess:
  "invalidated (addSkill_onSuccess w) = invalidated w @ [''/api/skills'']"
  by (simp add: addSkill_onSuccess_def Let_def invalidateQueries_def)

lemma invalidated_updateSkill_onSuccess:
  "invalidated (updateSkill_onSuccess w) = invalidated w @ [''/api/skills'']"
  by (simp add: updateSkill_onSuccess_def Let_def)

text \<open>
  Claim C7. On success each mutation invalidates exactly its fixed list of cache keys:
  change session status the sessions list, the upcoming-sessions list and the activity
  feed; submit feedback the feedback list, feedback-given and the activity feed; add skill
  and update skill progress the skills list only. When the mutation fails nothing is
  invalidated, and nothing is invalidated by sending the request either: invalidations
  come only with the success response.
\<close>

theorem mutations_invalidate_declared_keys:
  "invalidated (updateSessionMutation u i st Ok w) =
     invalidated w @ [''/api/sessions'', ''/api/sessions/upcoming'', ''/api/activities''] \<and>
   invalidated (submitFeedbackMutation fd Ok w) =
     invalidated w @ [''/api/feedback'', ''/api/feedback/given'', ''/api/activities''] \<and>
   invalidated (addSkillMutation values Ok w) = invalidated w @ [''/api/skills''] \<and>
   invalidated (updateSkillMutation j p Ok w) = invalidated w @ [''/api/skills''] \<and>
   invalidated (updateSessionMutation u i st (Failed msg) w) = invalidated w \<and>
   invalidated (submitFeedbackMutation fd (Failed msg) w) = invalidated w \<and>
   invalidated (addSkillMutation values (Failed msg) w) = invalidated w \<and>
   invalidated (updateSkillMutation j p (Failed msg) w) = invalidated w \<and>
   invalidated (updateSession_mutationFn i st w) = invalidated w \<and>
   invalidated (submitFeedback_mutationFn fd w) = invalidated w \<and>
   invalidated (addSkill_mutationFn values w) = invalidated w \<and>
   invalidated (updateSkill_mutationFn j p w) = invalidated w"
proof -
  have sent:
    "invalidated (updateSession_mutationFn i st w) = invalidated w"
    "invalidated (submitFeedback_mutationFn fd w) = invalidated w"
    "invalidated (addSkill_mutationFn values w) = invalidated w"
    "invalidated (updateSkill_mutationFn j p w) = invalidated w"
    by (simp_all add: updateSession_mutationFn_def submitFeedback_mutationFn_def
          addSkill_mutationFn_def updateSkill_mutationFn_def)
  have ok:
    "invalidated (updateSessionMutation u i st Ok w) =
       invalidated w @ [''/api/sessions'', ''/api/sessions/upcoming'', ''/api/activities'']"
    "invalidated (submitFeedbackMutation fd Ok w) =
       invalidated w @ [''/api/feedback'', ''/api/feedback/given'', ''/api/activities'']"
    "invalidated (addSkillMutation values Ok w) = invalidated w @ [''/api/skills'']"
    "invalidated (updateSkillMutation j p Ok w) = invalidated w @ [''/api/skills'']"
    by (simp_all add: updateSessionMutation_def submitFeedbackMutation_def
          addSkillMutation_def updateSkillMutation_def Let_def sent
          invalidated_updateSession_onSuccess invalidated_submitFeedback_onSuccess
          invalidated_addSkill_onSuccess invalidated_updateSkill_onSuccess)
  have failed:
    "invalidated (updateSessionMutation u i st (Failed msg) w) = invalidated w"
    "invalidated (submitFeedbackMutation fd (Failed msg) w) = invalidated w"
    "invalidated (addSkillMutation values (Failed msg) w) = invalidated w"
    "invalidated (updateSkillMutation j p (Failed msg) w) = invalidated w"
    by (simp_all add: updateSessionMutation_def submitFeedbackMutation_def
          addSkillMutation_def updateSkillMutation_def Let_def sent
          updateSession_onError_def submitFeedback_onError_def
          addSkill_onError_def updateSkill_onError_def)
  from sent ok failed show ?thesis by simp
qed

section \<open>Dashboard statistics\<close>

text \<open>
  Claim C8, as stated, fails: the cards do not wait for every required collection to be
  loaded. With the upcoming sessions (3) and all sessions (10) fetched and the feedback
  and mentor queries stopped without data, a mentee sees the cards, with 0 mentors and no
  ratings: an aggregate of part of the collections.
\<close>

theorem stats_shown_without_data_counterexample:
  "data (settled :: feedback list query) = None \<and>
   data (settled :: user list query) = None \<and>
   StatsOverview (Some mentee2) (loaded (replicate 3 (session7 Approved)))
     (loaded (replicate 10 (session7 Completed))) settled settled =
   StatCards \<lparr>upcomingCard = 3, totalHoursCard = 10, hoursThisMonth = 5,
     thirdCardTitle = ''Active Mentors'', thirdCard = 0, feedbackCard = NoRatings,
     basedOn = 0\<rparr>"
  by (simp add: StatsOverview_def statCards_def loaded_def settled_def mentee2_def
        upcomingSessionsCount_def totalHours_def activeMentorsCount_def feedbackScore_def
        avgRating_def)

text \<open>
  Claim C8, amended. The stat cards are rendered exactly when none of the required
  queries is loading: upcoming sessions, all sessions, all feedback and, for a mentee
  viewer only, the mentor directory. While any required one is loading the component
  renders the skeleton placeholder and no cards at all. A query that is not loading and
  has no data does not hold the cards back: its collection counts as empty (0 upcoming,
  0 hours, 0 mentors, no ratings).
\<close>

theorem stats_gate_on_loading:
  "(StatsOverview u upcomingQ sessionsQ feedbackQ mentorsQ = Skeleton \<longleftrightarrow>
      isLoading upcomingQ \<or> isLoading sessionsQ \<or> isLoading feedbackQ \<or>
      (map_option role u = Some Mentee \<and> isLoading mentorsQ)) \<and>
   (StatsOverview u upcomingQ sessionsQ feedbackQ mentorsQ = StatCards st \<longrightarrow>
      \<not> isLoading upcomingQ \<and> \<not> isLoading sessionsQ \<and> \<not> isLoading feedbackQ \<and>
      (map_option role u = Some Mentee \<longrightarrow> \<not> isLoading mentorsQ) \<and>
      st = statCards u (data upcomingQ) (data sessionsQ) (data feedbackQ) (data mentorsQ)) \<and>
   upcomingCard (statCards u None sessions fb mentors) = 0 \<and>
   totalHoursCard (statCards u upcoming None fb mentors) = 0 \<and>
   feedbackCard (statCards u upcoming sessions None mentors) = NoRatings \<and>
   activeMentorsCount u None = 0"
proof -
  have gate:
    "StatsOverview u upcomingQ sessionsQ feedbackQ mentorsQ = Skeleton \<longleftrightarrow>
       isLoading upcomingQ \<or> isLoading sessionsQ \<or> isLoading feedbackQ \<or>
       (map_option role u = Some Mentee \<and> isLoading mentorsQ)"
    by (simp add: StatsOverview_def)
  have shown:
    "\<not> isLoading upcomingQ \<and> \<not> isLoading sessionsQ \<and> \<not> isLoading feedbackQ \<and>
     (map_option role u = Some Mentee \<longrightarrow> \<not> isLoading mentorsQ) \<and>
     st = statCards u (data upcomingQ) (data sessionsQ) (data feedbackQ) (data mentorsQ)"
    if "StatsOverview u upcomingQ sessionsQ feedbackQ mentorsQ = StatCards st"
    using that by (auto simp: StatsOverview_def split: if_splits)
  have empty:
    "upcomingCard (statCards u None sessions fb mentors) = 0"
    "totalHoursCard (statCards u upcoming None fb mentors) = 0"
    "feedbackCard (statCards u upcoming sessions None mentors) = NoRatings"
    "activeMentorsCount u None = 0"
    by (simp_all add: statCards_def upcomingSessionsCount_def totalHours_def
          feedbackScore_def avgRating_def activeMentorsCount_def)
  from gate shown empty show ?thesis
    by blast
qed

theorem stats_gate_on_loading_witness:
  "StatsOverview (Some mentee2) (loaded []) (loaded []) (loaded []) loading = Skeleton \<and>
   StatsOverview (Some mentor1) (loaded []) (loaded []) settled loading =
     StatCards (statCards (Some mentor1) (Some []) (Some []) None None) \<and>
   \<not> isLoading (loaded ([] :: session list)) \<and> \<not> isLoading (settled :: feedback list query) \<and>
   map_option role (Some mentor1) \<noteq> Some Mentee"
  using stats_gate_on_loading [of "Some mentee2" "loaded []" "loaded []" "loaded []" loading]
    stats_gate_on_loading [of "Some mentor1" "loaded []" "loaded []" settled loading
      "statCards (Some mentor1) (Some []) (Some []) None None"]
  by (simp add: StatsOverview_def loaded_def loading_def settled_def mentee2_def mentor1_def)

lemma foldl_rating: "foldl (\<lambda>sum item. sum + rating item) a fb = a + sum_list (map rating fb)"
  by (induction fb arbitrary: a) simp_all

lemma totalRating_sum: "totalRating fb = sum_list (map rating fb)"
  by (simp add: totalRating_def foldl_rating)

lemma Math_round_round: "Math_round x = round x"
  by (simp add: Math_round_def round_def)

lemma avgRating_Some:
  "fb \<noteq> [] \<Longrightarrow> avgRating (Some fb) = of_int (round (mean_rating fb * 10)) / 10"
  by (simp add: avgRating_def mean_rating_def totalRating_sum Math_round_round)

lemma avgRating_empty: "avgRating (Some []) = 0"
  by (simp add: avgRating_def)

lemma sum_rating_ge:
  "\<forall>f \<in> set fb. 1 \<le> rating f \<Longrightarrow> int (length fb) \<le> sum_list (map rating fb)"
  by (induction fb) auto

lemma mean_rating_ge_1:
  assumes "fb \<noteq> []" and "\<forall>f \<in> set fb. 1 \<le> rating f"
  shows "1 \<le> mean_rating fb"
proof -
  have pos: "(0::rat) < of_nat (length fb)"
    using assms(1) by simp
  have "(of_nat (length fb) :: rat) = of_int (int (length fb))"
    by simp
  also have "\<dots> \<le> of_int (sum_list (map rating fb))"
    using sum_rating_ge [OF assms(2)] by (simp only: of_int_le_iff)
  finally show ?thesis
    using pos by (simp add: mean_rating_def)
qed

lemma rounded_mean_nonzero:
  assumes "1 \<le> (m::rat)"
  shows "of_int (round (m * 10)) / (10::rat) \<noteq> 0"
proof -
  have "(10::rat) \<le> m * 10"
    using assms by simp
  then have "round (10::rat) \<le> round (m * 10)"
    by (rule round_mono)
  then have "10 \<le> round (m * 10)"
    by simp
  then show ?thesis by simp
qed

lemma rounded_mean_close: "\<bar>of_int (round (m * 10)) / 10 - (m::rat)\<bar> \<le> 1 / 20"
proof -
  have "\<bar>of_int (round (m * 10)) - m * 10\<bar> \<le> 1 / 2"
    by (rule of_int_round_abs_le)
  moreover have "of_int (round (m * 10)) / 10 - m = (of_int (round (m * 10)) - m * 10) / 10"
    by (simp add: field_simps)
  moreover have "\<bar>(of_int (round (m * 10)) - m * 10) / 10\<bar> =
      \<bar>of_int (round (m * 10)) - m * 10\<bar> / 10"
    by simp
  ultimately show ?thesis
    by linarith
qed

lemma StatsOverview_loaded:
  "StatsOverview u (loaded up) (loaded all) (loaded fb) (loaded ms) =
     StatCards (statCards u (Some up) (Some all) (Some fb) (Some ms))"
  by (simp add: StatsOverview_def loaded_def)

text \<open>
  Claim C9. For every loaded input state (the four collections fetched, every feedback
  rating at least 1 as the entity model has it) the cards show: the size of the
  upcoming-sessions collection; as total hours the number of all sessions times 1; for a
  mentee viewer the size of the mentor directory; and as feedback score the "No ratings"
  sentinel when the feedback collection is empty, otherwise the mean of the ratings
  rounded to one decimal, which is a number of tenths at most 0.05 away from the mean. The
  spec's scenario (3 upcoming, 10 sessions, ratings 4 and 5, 6 mentors, mentee viewer)
  is the instance that follows the theorem: 3, 10, 4.5 and 6.
\<close>

theorem stats_of_loaded_collections:
  "\<exists>st. StatsOverview (Some v) (loaded up) (loaded all) (loaded fb) (loaded ms) = StatCards st \<and>
         upcomingCard st = length up \<and>
         totalHoursCard st = length all * 1 \<and>
         (role v = Mentee \<longrightarrow> thirdCard st = length ms) \<and>
         (fb = [] \<longrightarrow> feedbackCard st = NoRatings) \<and>
         (fb \<noteq> [] \<and> (\<forall>f \<in> set fb. 1 \<le> rating f) \<longrightarrow>
            feedbackCard st = Score (of_int (round (mean_rating fb * 10)) / 10) \<and>
            \<bar>of_int (round (mean_rating fb * 10)) / 10 - mean_rating fb\<bar> \<le> 1 / 20)"
proof -
  let ?st = "statCards (Some v) (Some up) (Some all) (Some fb) (Some ms)"
  have counts: "upcomingCard ?st = length up" "totalHoursCard ?st = length all * 1"
    by (simp_all add: statCards_def upcomingSessionsCount_def totalHours_def)
  have mentors: "thirdCard ?st = length ms" if "role v = Mentee"
    using that by (simp add: statCards_def activeMentorsCount_def)
  have card: "feedbackCard ?st = feedbackScore (Some fb)"
    by (simp add: statCards_def)
  have none: "feedbackCard ?st = NoRatings" if "fb = []"
    using that by (simp add: statCards_def feedbackScore_def avgRating_empty)
  have some: "feedbackCard ?st = Score (of_int (round (mean_rating fb * 10)) / 10)"
    if "fb \<noteq> [] \<and> (\<forall>f \<in> set fb. 1 \<le> rating f)"
  proof -
    from that have "1 \<le> mean_rating fb"
      by (simp add: mean_rating_ge_1)
    then have "of_int (round (mean_rating fb * 10)) / (10::rat) \<noteq> 0"
      by (rule rounded_mean_nonzero)
    with that show ?thesis
      by (simp add: card feedbackScore_def avgRating_Some)
  qed
  from counts mentors none some rounded_mean_close [of "mean_rating fb"]
  show ?thesis
    by (intro exI [of _ ?st]) (simp add: StatsOverview_loaded)
qed

theorem stats_of_loaded_collections_witness:
  "role mentee2 = Mentee \<and> [rated 4, rated 5] \<noteq> [] \<and>
   1 \<le> rating (rated 4) \<and> 1 \<le> rating (rated 5) \<and>
   (case StatsOverview (Some mentee2) (loaded (replicate 3 (session7 Approved)))
           (loaded (replicate 10 (session7 Completed))) (loaded [rated 4, rated 5])
           (loaded (replicate 6 mentor1)) of
      Skeleton \<Rightarrow> None
    | StatCards st \<Rightarrow> Some (upcomingCard st, totalHoursCard st, feedbackCard st, thirdCard st)) =
   Some (3, 10, Score (9 / 2), 6)"
proof -
  have h: "[rated 4, rated 5] \<noteq> [] \<and> (\<forall>f \<in> set [rated 4, rated 5]. 1 \<le> rating f)"
    by (simp add: rated_def)
  have m: "mean_rating [rated 4, rated 5] * 10 = 45"
    by (simp add: mean_rating_def rated_def)
  have r: "rat_of_int (round (45 :: rat)) / 10 = 9 / 2"
    by simp
  have v: "role mentee2 = Mentee"
    by (simp add: mentee2_def)
  have g: "1 \<le> rating (rated 4) \<and> 1 \<le> rating (rated 5)"
    by (simp add: rated_def)
  show ?thesis
    using h v g
      stats_of_loaded_collections
        [of mentee2 "replicate 3 (session7 Approved)" "replicate 10 (session7 Completed)"
            "[rated 4, rated 5]" "replicate 6 mentor1"]
    by (auto simp: m r)
qed

section \<open>Recommended mentors\<close>

lemma slice_0: "slice 0 n xs = take n xs"
  by (simp add: slice_def Let_def min_def)

lemma recommendedMentors_take:
  "recommendedMentors (Some ms) = Some (take 4 (filter (\<lambda>u. role u = Mentor) ms))"
  by (simp add: recommendedMentors_def slice_0)

text \<open>
  Claim C10. For every fetched mentor directory the recommended list holds only users of
  the directory whose role is mentor, has at most 4 entries, and is the first 4 such users
  in the directory's order (all of them when there are fewer): a prefix of the directory's
  mentors and a subsequence of the directory. No entry with another role is recommended.
\<close>

theorem recommended_are_first_four_mentors:
  "\<exists>rs. recommendedMentors (Some ms) = Some rs \<and>
         rs = take 4 (filter (\<lambda>u. role u = Mentor) ms) \<and>
         (\<forall>u \<in> set rs. role u = Mentor \<and> u \<in> set ms) \<and>
         length rs \<le> 4 \<and>
         length rs = min 4 (length (filter (\<lambda>u. role u = Mentor) ms)) \<and>
         prefix rs (filter (\<lambda>u. role u = Mentor) ms) \<and>
         subseq rs ms"
proof -
  let ?fs = "filter (\<lambda>u. role u = Mentor) ms"
  have "set (take 4 ?fs) \<subseteq> set ?fs"
    by (rule set_take_subset)
  then have only: "\<forall>u \<in> set (take 4 ?fs). role u = Mentor \<and> u \<in> set ms"
    by auto
  have len: "length (take 4 ?fs) \<le> 4" "length (take 4 ?fs) = min 4 (length ?fs)"
    by (simp_all add: min.commute)
  have pre: "prefix (take 4 ?fs) ?fs"
    by (rule take_is_prefix)
  then have "subseq (take 4 ?fs) ?fs"
    by (rule prefix_imp_subseq)
  moreover have "subseq ?fs ms"
    by simp
  ultimately have sub: "subseq (take 4 ?fs) ms"
    by (rule subseq_order.trans)
  show ?thesis
    using only len pre sub
    by (intro exI [of _ "take 4 ?fs"] conjI recommendedMentors_take refl)
qed

theorem recommended_are_first_four_mentors_witness:
  "recommendedMentors
     (Some [mentor_of 10, mentee2, mentor_of 11, mentor_of 12, outsider3, mentor_of 13,
            mentor_of 14]) =
   Some [mentor_of 10, mentor_of 11, mentor_of 12, mentor_of 13] \<and>
   role (mentor_of 12) = Mentor \<and> role mentee2 \<noteq> Mentor"
proof -
  have roles: "role (mentor_of n) = Mentor" "role mentee2 = Mentee" "role outsider3 = Mentee"
    for n
    by (simp_all add: mentor_of_def mentee2_def outsider3_def)
  have four: "take 4 [a, b, c, d, e] = [a, b, c, d]" for a b c d e :: user
    by (simp add: numeral_eq_Suc)
  show ?thesis
    using recommended_are_first_four_mentors
            [of "[mentor_of 10, mentee2, mentor_of 11, mentor_of 12, outsider3, mentor_of 13,
                  mentor_of 14]"]
    by (simp add: roles four)
qed

end
